theory Spec2Isabelle
  imports Main "HOL-Library.Sublist"
begin

section \<open>Strings\<close>

text \<open>
  Go strings are byte sequences; they are modelled as \<open>string\<close> (a list of bytes).
  \<open>strings.Contains(s, substr)\<close> reports whether \<open>substr\<close> occurs within \<open>s\<close>;
  the empty string occurs in every string.
\<close>

fun Contains :: "string \<Rightarrow> string \<Rightarrow> bool" where
  "Contains [] substr = (substr = [])"
| "Contains (c # s) substr = (prefix substr (c # s) \<or> Contains s substr)"

section \<open>The parsed document\<close>

text \<open>
  A node of the parse tree (\<open>html.Node\<close>): an element with its tag, its attribute list
  (in source order) and its children, a text node, or a comment. A document is the list
  of children of the document node, which is not an element itself.
\<close>

datatype node =
    ElementNode string "(string \<times> string) list" "node list"
  | TextNode string
  | CommentNode string

type_synonym document = "node list"

text \<open>
  The single-node selections handed to the \<open>Each\<close> callbacks: the node together with
  its element ancestors, nearest first.
\<close>

type_synonym selection = "node list \<times> node"

fun isElement :: "node \<Rightarrow> bool" where
  "isElement (ElementNode d as cs) = True"
| "isElement n = False"

fun childNodes :: "node \<Rightarrow> node list" where
  "childNodes (ElementNode d as cs) = cs"
| "childNodes n = []"

text \<open>\<open>Selection.Text\<close>: the data of every text node below the node, in document order.\<close>

fun nodeText :: "node \<Rightarrow> string" where
  "nodeText (TextNode d) = d"
| "nodeText (ElementNode d as cs) = concat (map nodeText cs)"
| "nodeText (CommentNode d) = []"

definition Text :: "selection \<Rightarrow> string" where
  "Text s = nodeText (snd s)"

text \<open>
  \<open>s.Clone().Children().Remove().End().Text()\<close>: the text of a copy of the node from
  which the element children have been removed.
\<close>

fun removeChildren :: "node \<Rightarrow> node" where
  "removeChildren (ElementNode d as cs) = ElementNode d as (filter (\<lambda>c. \<not> isElement c) cs)"
| "removeChildren n = n"

definition directText :: "selection \<Rightarrow> string" where
  "directText s = nodeText (removeChildren (snd s))"

text \<open>\<open>Selection.Attr\<close>: the value of the first attribute with the given key.\<close>

fun nodeAttr :: "node \<Rightarrow> string \<Rightarrow> string option" where
  "nodeAttr (ElementNode d as cs) name = map_of as name"
| "nodeAttr n name = None"

definition Attr :: "selection \<Rightarrow> string \<Rightarrow> string option" where
  "Attr s name = nodeAttr (snd s) name"

text \<open>
  The selectors the program uses: a tag name, \<open>[key*='val']\<close> (some attribute with
  the key \<open>key\<close> has a value in which \<open>val\<close> occurs; the values of the program are
  "product" and "item"), and \<open>*\<close> (every element).
\<close>

datatype selector = Tag string | AttrSubstring string string | Universal

fun matches :: "selector \<Rightarrow> node \<Rightarrow> bool" where
  "matches (Tag t) (ElementNode d as cs) = (d = t)"
| "matches (AttrSubstring k v) (ElementNode d as cs) =
     list_ex (\<lambda>a. fst a = k \<and> Contains (snd a) v) as"
| "matches Universal (ElementNode d as cs) = True"
| "matches sel n = False"

definition Is :: "selection \<Rightarrow> selector \<Rightarrow> bool" where
  "Is s sel = matches sel (snd s)"

text \<open>The matching nodes of a subtree in document order (pre-order), the root included.\<close>

fun matchAll :: "selector \<Rightarrow> node list \<Rightarrow> node \<Rightarrow> selection list" where
  "matchAll sel ps (ElementNode d as cs) =
     (if matches sel (ElementNode d as cs) then [(ps, ElementNode d as cs)] else []) @
     concat (map (matchAll sel (ElementNode d as cs # ps)) cs)"
| "matchAll sel ps n = []"

text \<open>\<open>Document.Find\<close> and \<open>Selection.Find\<close>: the matching descendants.\<close>

definition docFind :: "document \<Rightarrow> selector \<Rightarrow> selection list" where
  "docFind doc sel = concat (map (matchAll sel []) doc)"

definition Find :: "selection \<Rightarrow> selector \<Rightarrow> selection list" where
  "Find s sel = concat (map (matchAll sel (snd s # fst s)) (childNodes (snd s)))"

text \<open>\<open>Selection.Parents\<close>: the element ancestors, nearest first.\<close>

fun parentsOf :: "node list \<Rightarrow> selection list" where
  "parentsOf [] = []"
| "parentsOf (p # ps) = (ps, p) # parentsOf ps"

definition Parents :: "selection \<Rightarrow> selection list" where
  "Parents s = parentsOf (fst s)"

definition First :: "selection list \<Rightarrow> selection list" where
  "First ss = take 1 ss"

text \<open>
  The text of all body elements, concatenated: \<open>doc.Find("body").Text()\<close>, which is
  also what checkWebsite collects with \<open>doc.Find("body").Each\<close> into its builder.
\<close>

definition bodyText :: "document \<Rightarrow> string" where
  "bodyText doc = concat (map Text (docFind doc (Tag ''body'')))"

section \<open>The standard library\<close>

text \<open>
  The functions of \<open>net/url\<close> and \<open>strings.ToLower\<close> are not part of the repository;
  the program is modelled over any implementation of them. \<open>'u\<close> is the type of parsed
  URLs; \<open>url_Parse\<close> returns \<open>None\<close> where \<open>url.Parse\<close> returns an error.
\<close>

record 'u stdlib =
  url_Parse :: "string \<Rightarrow> 'u option"
  url_ResolveReference :: "'u \<Rightarrow> 'u \<Rightarrow> 'u"
  url_String :: "'u \<Rightarrow> string"
  strings_ToLower :: "string \<Rightarrow> string"

text \<open>
  The fetcher and the HTML parser (\<open>http.Get\<close>, \<open>goquery.NewDocumentFromReader\<close>):
  \<open>Inl\<close> is the error, a response is its status code and its body.
\<close>

record 'b network =
  http_Get :: "string \<Rightarrow> string + (int \<times> 'b)"
  NewDocumentFromReader :: "'b \<Rightarrow> string + document"

text \<open>
  \<open>http.Get\<close> builds its request from the URL string with \<open>url.Parse\<close> and returns
  the parse error before anything is sent. \<open>httpClient L N\<close> is the network whose
  \<open>http_Get\<close> does so and otherwise answers as that of \<open>N\<close>.
\<close>

definition httpClient :: "'u stdlib \<Rightarrow> 'b network \<Rightarrow> 'b network" where
  "httpClient L N =
     N\<lparr>http_Get :=
         (\<lambda>url. case url_Parse L url of
                  None \<Rightarrow> Inl ''parse error''
                | Some u \<Rightarrow> http_Get N url)\<rparr>"

section \<open>The webhook variant (web\_scraper/main.go)\<close>

subsection \<open>resolveURL\<close>

definition resolveURL :: "'u stdlib \<Rightarrow> 'u \<Rightarrow> string \<Rightarrow> string" where
  "resolveURL L baseURL href =
     (if href = [] then []
      else
        (case url_Parse L href of
           None \<Rightarrow> []
         | Some parsed \<Rightarrow> url_String L (url_ResolveReference L baseURL parsed)))"

subsection \<open>findClosestLink\<close>

text \<open>
  The \<open>Each\<close> callbacks of findClosestLink, as functions from the captured variable
  \<open>foundLink\<close> and the visited selection to the new \<open>foundLink\<close>: that of the first
  walk over the parents, that of the first descendant anchor, and those of the second
  walk over the parents (the inner one for the first anchor below a parent).
\<close>

definition parentLink :: "'u stdlib \<Rightarrow> 'u \<Rightarrow> string \<Rightarrow> selection \<Rightarrow> string" where
  "parentLink L baseURL foundLink parent =
     (if foundLink \<noteq> [] then foundLink
      else if Is parent (Tag ''a'') then
        (case Attr parent ''href'' of
           Some href \<Rightarrow> resolveURL L baseURL href
         | None \<Rightarrow> foundLink)
      else foundLink)"

definition childLink :: "'u stdlib \<Rightarrow> 'u \<Rightarrow> string \<Rightarrow> selection \<Rightarrow> string" where
  "childLink L baseURL foundLink link =
     (case Attr link ''href'' of
        Some href \<Rightarrow> resolveURL L baseURL href
      | None \<Rightarrow> foundLink)"

definition containerLink :: "'u stdlib \<Rightarrow> 'u \<Rightarrow> string \<Rightarrow> selection \<Rightarrow> string" where
  "containerLink L baseURL foundLink link =
     (case Attr link ''href'' of
        Some href \<Rightarrow>
          (let resolved = resolveURL L baseURL href
           in if Contains resolved ''/products/'' then resolved
              else if foundLink = [] then resolved
              else foundLink)
      | None \<Rightarrow> foundLink)"

definition parentContainer :: "'u stdlib \<Rightarrow> 'u \<Rightarrow> string \<Rightarrow> selection \<Rightarrow> string" where
  "parentContainer L baseURL foundLink parent =
     (if foundLink \<noteq> [] then foundLink
      else foldl (containerLink L baseURL) foundLink (First (Find parent (Tag ''a''))))"

definition findClosestLink :: "'u stdlib \<Rightarrow> selection \<Rightarrow> 'u \<Rightarrow> string" where
  "findClosestLink L s baseURL =
     (case (if Is s (Tag ''a'') then Attr s ''href'' else None) of
        Some href \<Rightarrow> resolveURL L baseURL href
      | None \<Rightarrow>
          (let foundLink = foldl (parentLink L baseURL) [] (Parents s)
           in if foundLink \<noteq> [] then foundLink
              else
                (let foundLink = foldl (childLink L baseURL) foundLink (First (Find s (Tag ''a'')))
                 in if foundLink \<noteq> [] then foundLink
                    else foldl (parentContainer L baseURL) foundLink (Parents s))))"

subsection \<open>findLinksForText\<close>

text \<open>
  The accumulator of findLinksForText: the seen-set \<open>linkMap\<close> (a Go map to bool, where
  a missing key reads as false) and the two result slices.
\<close>

record linkAcc =
  linkMap :: "string \<Rightarrow> bool"
  productLinks :: "string list"
  otherLinks :: "string list"

definition noLinks :: linkAcc where
  "noLinks = \<lparr>linkMap = (\<lambda>k. False), productLinks = [], otherLinks = []\<rparr>"

text \<open>
  The block that all three strategies run on a resolved link: a non-empty link not yet
  seen is marked and appended to the product links or to the other links.
\<close>

definition addLink :: "linkAcc \<Rightarrow> string \<Rightarrow> linkAcc" where
  "addLink acc link =
     (if link \<noteq> [] \<and> \<not> linkMap acc link then
        (let acc = acc\<lparr>linkMap := (linkMap acc)(link := True)\<rparr>
         in if Contains link ''/products/''
            then acc\<lparr>productLinks := productLinks acc @ [link]\<rparr>
            else acc\<lparr>otherLinks := otherLinks acc @ [link]\<rparr>)
      else acc)"

definition anchorScan :: "'u stdlib \<Rightarrow> 'u \<Rightarrow> string \<Rightarrow> linkAcc \<Rightarrow> selection \<Rightarrow> linkAcc" where
  "anchorScan L base searchTextLower acc s =
     (let text = strings_ToLower L (Text s)
      in if Contains text searchTextLower then
           (case Attr s ''href'' of
              Some href \<Rightarrow> addLink acc (resolveURL L base href)
            | None \<Rightarrow> acc)
         else acc)"

definition productSelectors :: "selector list" where
  "productSelectors =
     [Tag ''h1'', Tag ''h2'', Tag ''h3'', AttrSubstring ''class'' ''product'',
      AttrSubstring ''class'' ''item'', AttrSubstring ''id'' ''product'']"

definition selectorScan :: "'u stdlib \<Rightarrow> 'u \<Rightarrow> string \<Rightarrow> linkAcc \<Rightarrow> selection \<Rightarrow> linkAcc" where
  "selectorScan L base searchTextLower acc s =
     (let text = strings_ToLower L (Text s)
      in if Contains text searchTextLower then addLink acc (findClosestLink L s base)
         else acc)"

definition generalScan :: "'u stdlib \<Rightarrow> 'u \<Rightarrow> string \<Rightarrow> linkAcc \<Rightarrow> selection \<Rightarrow> linkAcc" where
  "generalScan L base searchTextLower acc s =
     (let directText = strings_ToLower L (directText s)
      in if Contains directText searchTextLower then addLink acc (findClosestLink L s base)
         else acc)"

text \<open>The three strategies, run in order on the same accumulator.\<close>

definition scanDocument :: "'u stdlib \<Rightarrow> document \<Rightarrow> 'u \<Rightarrow> string \<Rightarrow> linkAcc" where
  "scanDocument L doc base searchTextLower =
     (let acc = foldl (anchorScan L base searchTextLower) noLinks (docFind doc (Tag ''a''));
          acc = foldl (\<lambda>acc selector.
                         foldl (selectorScan L base searchTextLower) acc (docFind doc selector))
                  acc productSelectors
      in foldl (generalScan L base searchTextLower) acc (docFind doc Universal))"

definition findLinksForText :: "'u stdlib \<Rightarrow> document \<Rightarrow> string \<Rightarrow> string \<Rightarrow> string list" where
  "findLinksForText L doc baseURL searchTextLower =
     (case url_Parse L baseURL of
        None \<Rightarrow> []
      | Some base \<Rightarrow>
          if Contains baseURL ''/products/'' \<and>
             Contains (strings_ToLower L (bodyText doc)) searchTextLower
          then [baseURL]
          else
            (let acc = scanDocument L doc base searchTextLower
             in if length (productLinks acc) > 0 then productLinks acc else otherLinks acc))"

subsection \<open>checkWebsite\<close>

record Config =
  WebsiteURL :: string
  SearchText :: string
  DiscordWebhook :: string
  CheckInterval :: int

text \<open>
  What one call of checkWebsite does: it returns early on a fetch error, a status other
  than 200, a parse error or a page without the search text, and otherwise calls the
  notifier once (sendDiscordNotification here, sendEmailNotification in the email
  variant), with the match text and the links.
\<close>

datatype outcome =
    FetchError string
  | StatusError int
  | ParseError string
  | NoMatch
  | SendDiscordNotification string "string list"
  | SendEmailNotification string "string list"

definition checkWebsite :: "'u stdlib \<Rightarrow> 'b network \<Rightarrow> Config \<Rightarrow> outcome" where
  "checkWebsite L N config =
     (case http_Get N (WebsiteURL config) of
        Inl err \<Rightarrow> FetchError err
      | Inr resp \<Rightarrow>
          if fst resp \<noteq> 200 then StatusError (fst resp)
          else
            (case NewDocumentFromReader N (snd resp) of
               Inl err \<Rightarrow> ParseError err
             | Inr doc \<Rightarrow>
                 (let pageText = bodyText doc;
                      searchTextLower = strings_ToLower L (SearchText config)
                  in if \<not> Contains (strings_ToLower L pageText) searchTextLower then NoMatch
                     else
                       (let links = findLinksForText L doc (WebsiteURL config) searchTextLower
                        in if length links > 0
                           then SendDiscordNotification (SearchText config) links
                           else SendDiscordNotification (SearchText config) [WebsiteURL config]))))"

section \<open>The email variant (unnamed/part\_001)\<close>

text \<open>
  The second program: the same functions, translated from its own source text (names
  carry the suffix \<open>_email\<close>). It differs from the first in its configuration and in
  the notifier that checkWebsite calls.
\<close>

subsection \<open>resolveURL\<close>

definition resolveURL_email :: "'u stdlib \<Rightarrow> 'u \<Rightarrow> string \<Rightarrow> string" where
  "resolveURL_email L baseURL href =
     (if href = [] then []
      else
        (case url_Parse L href of
           None \<Rightarrow> []
         | Some parsed \<Rightarrow> url_String L (url_ResolveReference L baseURL parsed)))"

subsection \<open>findClosestLink\<close>

definition parentLink_email :: "'u stdlib \<Rightarrow> 'u \<Rightarrow> string \<Rightarrow> selection \<Rightarrow> string" where
  "parentLink_email L baseURL foundLink parent =
     (if foundLink \<noteq> [] then foundLink
      else if Is parent (Tag ''a'') then
        (case Attr parent ''href'' of
           Some href \<Rightarrow> resolveURL_email L baseURL href
         | None \<Rightarrow> foundLink)
      else foundLink)"

definition childLink_email :: "'u stdlib \<Rightarrow> 'u \<Rightarrow> string \<Rightarrow> selection \<Rightarrow> string" where
  "childLink_email L baseURL foundLink link =
     (case Attr link ''href'' of
        Some href \<Rightarrow> resolveURL_email L baseURL href
      | None \<Rightarrow> foundLink)"

definition containerLink_email :: "'u stdlib \<Rightarrow> 'u \<Rightarrow> string \<Rightarrow> selection \<Rightarrow> string" where
  "containerLink_email L baseURL foundLink link =
     (case Attr link ''href'' of
        Some href \<Rightarrow>
          (let resolved = resolveURL_email L baseURL href
           in if Contains resolved ''/products/'' then resolved
              else if foundLink = [] then resolved
              else foundLink)
      | None \<Rightarrow> foundLink)"

definition parentContainer_email :: "'u stdlib \<Rightarrow> 'u \<Rightarrow> string \<Rightarrow> selection \<Rightarrow> string" where
  "parentContainer_email L baseURL foundLink parent =
     (if foundLink \<noteq> [] then foundLink
      else foldl (containerLink_email L baseURL) foundLink (First (Find parent (Tag ''a''))))"

definition findClosestLink_email :: "'u stdlib \<Rightarrow> selection \<Rightarrow> 'u \<Rightarrow> string" where
  "findClosestLink_email L s baseURL =
     (case (if Is s (Tag ''a'') then Attr s ''href'' else None) of
        Some href \<Rightarrow> resolveURL_email L baseURL href
      | None \<Rightarrow>
          (let foundLink = foldl (parentLink_email L baseURL) [] (Parents s)
           in if foundLink \<noteq> [] then foundLink
              else
                (let foundLink = foldl (childLink_email L baseURL) foundLink (First (Find s (Tag ''a'')))
                 in if foundLink \<noteq> [] then foundLink
                    else foldl (parentContainer_email L baseURL) foundLink (Parents s))))"

subsection \<open>findLinksForText\<close>

definition addLink_email :: "linkAcc \<Rightarrow> string \<Rightarrow> linkAcc" where
  "addLink_email acc link =
     (if link \<noteq> [] \<and> \<not> linkMap acc link then
        (let acc = acc\<lparr>linkMap := (linkMap acc)(link := True)\<rparr>
         in if Contains link ''/products/''
            then acc\<lparr>productLinks := productLinks acc @ [link]\<rparr>
            else acc\<lparr>otherLinks := otherLinks acc @ [link]\<rparr>)
      else acc)"

definition anchorScan_email :: "'u stdlib \<Rightarrow> 'u \<Rightarrow> string \<Rightarrow> linkAcc \<Rightarrow> selection \<Rightarrow> linkAcc" where
  "anchorScan_email L base searchTextLower acc s =
     (let text = strings_ToLower L (Text s)
      in if Contains text searchTextLower then
           (case Attr s ''href'' of
              Some href \<Rightarrow> addLink_email acc (resolveURL_email L base href)
            | None \<Rightarrow> acc)
         else acc)"

definition productSelectors_email :: "selector list" where
  "productSelectors_email =
     [Tag ''h1'', Tag ''h2'', Tag ''h3'', AttrSubstring ''class'' ''product'',
      AttrSubstring ''class'' ''item'', AttrSubstring ''id'' ''product'']"

definition selectorScan_email :: "'u stdlib \<Rightarrow> 'u \<Rightarrow> string \<Rightarrow> linkAcc \<Rightarrow> selection \<Rightarrow> linkAcc" where
  "selectorScan_email L base searchTextLower acc s =
     (let text = strings_ToLower L (Text s)
      in if Contains text searchTextLower then addLink_email acc (findClosestLink_email L s base)
         else acc)"

definition generalScan_email :: "'u stdlib \<Rightarrow> 'u \<Rightarrow> string \<Rightarrow> linkAcc \<Rightarrow> selection \<Rightarrow> linkAcc" where
  "generalScan_email L base searchTextLower acc s =
     (let directText = strings_ToLower L (directText s)
      in if Contains directText searchTextLower then addLink_email acc (findClosestLink_email L s base)
         else acc)"

definition scanDocument_email :: "'u stdlib \<Rightarrow> document \<Rightarrow> 'u \<Rightarrow> string \<Rightarrow> linkAcc" where
  "scanDocument_email L doc base searchTextLower =
     (let acc = foldl (anchorScan_email L base searchTextLower) noLinks (docFind doc (Tag ''a''));
          acc = foldl (\<lambda>acc selector.
                         foldl (selectorScan_email L base searchTextLower) acc (docFind doc selector))
                  acc productSelectors_email
      in foldl (generalScan_email L base searchTextLower) acc (docFind doc Universal))"

definition findLinksForText_email :: "'u stdlib \<Rightarrow> document \<Rightarrow> string \<Rightarrow> string \<Rightarrow> string list" where
  "findLinksForText_email L doc baseURL searchTextLower =
     (case url_Parse L baseURL of
        None \<Rightarrow> []
      | Some base \<Rightarrow>
          if Contains baseURL ''/products/'' \<and>
             Contains (strings_ToLower L (bodyText doc)) searchTextLower
          then [baseURL]
          else
            (let acc = scanDocument_email L doc base searchTextLower
             in if length (productLinks acc) > 0 then productLinks acc else otherLinks acc))"

subsection \<open>checkWebsite\<close>

record Config_email =
  WebsiteURL_email :: string
  SearchText_email :: string
  SMTPHost :: string
  SMTPPort :: int
  SMTPUsername :: string
  SMTPPassword :: string
  EmailFrom :: string
  EmailTo :: string
  CheckInterval_email :: int

definition checkWebsite_email :: "'u stdlib \<Rightarrow> 'b network \<Rightarrow> Config_email \<Rightarrow> outcome" where
  "checkWebsite_email L N config =
     (case http_Get N (WebsiteURL_email config) of
        Inl err \<Rightarrow> FetchError err
      | Inr resp \<Rightarrow>
          if fst resp \<noteq> 200 then StatusError (fst resp)
          else
            (case NewDocumentFromReader N (snd resp) of
               Inl err \<Rightarrow> ParseError err
             | Inr doc \<Rightarrow>
                 (let pageText = bodyText doc;
                      searchTextLower = strings_ToLower L (SearchText_email config)
                  in if \<not> Contains (strings_ToLower L pageText) searchTextLower then NoMatch
                     else
                       (let links = findLinksForText_email L doc (WebsiteURL_email config) searchTextLower
                        in if length links > 0
                           then SendEmailNotification (SearchText_email config) links
                           else SendEmailNotification (SearchText_email config) [WebsiteURL_email config]))))"

section \<open>A library instance for evaluating examples\<close>

text \<open>
  A small implementation of the library functions, on which the definitions above can be
  run. A parsed URL is the string itself. It follows \<open>net/url\<close> and \<open>strings\<close> on
  the inputs of the examples below: \<open>url.Parse\<close> rejects a string that contains an ASCII
  control byte; a reference with a scheme resolves to itself, and a reference that starts
  with a slash to the scheme and host of the base followed by the reference;
  \<open>strings.ToLower\<close> maps the ASCII capitals to small letters.
\<close>

definition stringContainsCTLByte :: "string \<Rightarrow> bool" where
  "stringContainsCTLByte s = list_ex (\<lambda>c. (of_char c :: nat) < 32 \<or> (of_char c :: nat) = 127) s"

definition origin :: "string \<Rightarrow> string" where
  "origin b =
     (let scheme = takeWhile (\<lambda>c. c \<noteq> CHR '':'') b
      in scheme @ ''://'' @ takeWhile (\<lambda>c. c \<noteq> CHR ''/'') (drop (length scheme + 3) b))"

definition sampleResolve :: "string \<Rightarrow> string \<Rightarrow> string" where
  "sampleResolve b r =
     (if Contains r ''://'' then r
      else if prefix ''/'' r then origin b @ r
      else origin b @ ''/'' @ r)"

definition asciiLower :: "char \<Rightarrow> char" where
  "asciiLower c =
     (if 65 \<le> (of_char c :: nat) \<and> (of_char c :: nat) \<le> 90 then char_of (of_char c + 32 :: nat)
      else c)"

definition sampleLib :: "string stdlib" where
  "sampleLib =
     \<lparr>url_Parse = (\<lambda>s. if stringContainsCTLByte s then None else Some s),
      url_ResolveReference = sampleResolve,
      url_String = (\<lambda>u. u),
      strings_ToLower = map asciiLower\<rparr>"

section \<open>Notions of the specification\<close>

subsection \<open>Match Result and Notifier\<close>

text \<open>
  The specification's view of a check cycle: its Match Result (\<open>matched\<close>, \<open>links\<close>)
  and the invocations of the Notifier. A cycle that ends before the notifier call has
  not matched, has no links and invokes nothing.
\<close>

fun resultMatched :: "outcome \<Rightarrow> bool" where
  "resultMatched (SendDiscordNotification t ls) = True"
| "resultMatched (SendEmailNotification t ls) = True"
| "resultMatched r = False"

fun resultLinks :: "outcome \<Rightarrow> string list" where
  "resultLinks (SendDiscordNotification t ls) = ls"
| "resultLinks (SendEmailNotification t ls) = ls"
| "resultLinks r = []"

fun notifierCalls :: "outcome \<Rightarrow> (string \<times> string list) list" where
  "notifierCalls (SendDiscordNotification t ls) = [(t, ls)]"
| "notifierCalls (SendEmailNotification t ls) = [(t, ls)]"
| "notifierCalls r = []"

subsection \<open>Candidate links in discovery order\<close>

text \<open>A link is product-class when it contains the segment \<open>/products/\<close>.\<close>

definition productClass :: "string \<Rightarrow> bool" where
  "productClass link = Contains link ''/products/''"

text \<open>The first occurrence of every element of a list, in the order of the list.\<close>

fun firstOccurrences :: "'a list \<Rightarrow> 'a list" where
  "firstOccurrences [] = []"
| "firstOccurrences (x # xs) = x # firstOccurrences (filter (\<lambda>y. y \<noteq> x) xs)"

text \<open>
  The links that the three strategies come upon, in the order in which they do, before
  any of them is dropped as empty or as seen before: the resolved href of every anchor
  whose text has the phrase, then the closest link of every element with the phrase in
  its text that a structural selector matches, selector by selector, then the closest
  link of every element with the phrase in its direct text.
\<close>

definition anchorDiscovery :: "'u stdlib \<Rightarrow> 'u \<Rightarrow> string \<Rightarrow> selection \<Rightarrow> string list" where
  "anchorDiscovery L base phrase s =
     (if Contains (strings_ToLower L (Text s)) phrase then
        (case Attr s ''href'' of Some href \<Rightarrow> [resolveURL L base href] | None \<Rightarrow> [])
      else [])"

definition selectorDiscovery :: "'u stdlib \<Rightarrow> 'u \<Rightarrow> string \<Rightarrow> selection \<Rightarrow> string list" where
  "selectorDiscovery L base phrase s =
     (if Contains (strings_ToLower L (Text s)) phrase then [findClosestLink L s base] else [])"

definition generalDiscovery :: "'u stdlib \<Rightarrow> 'u \<Rightarrow> string \<Rightarrow> selection \<Rightarrow> string list" where
  "generalDiscovery L base phrase s =
     (if Contains (strings_ToLower L (directText s)) phrase then [findClosestLink L s base]
      else [])"

text \<open>The elements that the structural scan visits, in the order of the visits.\<close>

definition structuralScanned :: "document \<Rightarrow> selection list" where
  "structuralScanned doc = concat (map (docFind doc) productSelectors)"

definition discoveries :: "'u stdlib \<Rightarrow> document \<Rightarrow> 'u \<Rightarrow> string \<Rightarrow> string list" where
  "discoveries L doc base phrase =
     concat (map (anchorDiscovery L base phrase) (docFind doc (Tag ''a''))) @
     concat (map (selectorDiscovery L base phrase) (structuralScanned doc)) @
     concat (map (generalDiscovery L base phrase) (docFind doc Universal))"

text \<open>The candidate links: the non-empty discoveries, each at its first occurrence.\<close>

definition candidates :: "'u stdlib \<Rightarrow> document \<Rightarrow> 'u \<Rightarrow> string \<Rightarrow> string list" where
  "candidates L doc base phrase =
     firstOccurrences (filter (\<lambda>link. link \<noteq> []) (discoveries L doc base phrase))"

text \<open>
  The candidate links for a base URL given as a string: none if it does not parse.
\<close>

definition candidatesOf :: "'u stdlib \<Rightarrow> document \<Rightarrow> string \<Rightarrow> string \<Rightarrow> string list" where
  "candidatesOf L doc baseURL phrase =
     (case url_Parse L baseURL of
        None \<Rightarrow> []
      | Some base \<Rightarrow> candidates L doc base phrase)"

text \<open>The condition of the self-page short-circuit.\<close>

definition selfPage :: "'u stdlib \<Rightarrow> document \<Rightarrow> string \<Rightarrow> string \<Rightarrow> bool" where
  "selfPage L doc baseURL phrase =
     (Contains baseURL ''/products/'' \<and> Contains (strings_ToLower L (bodyText doc)) phrase)"

subsection \<open>Closest-link resolution as a chain\<close>

text \<open>
  The resolution of the href of a selection, if it has one, and of an anchor; the first
  success of a sequence of resolutions, which is empty if none of them succeeds.
\<close>

definition hrefLink :: "'u stdlib \<Rightarrow> 'u \<Rightarrow> selection \<Rightarrow> string list" where
  "hrefLink L base s =
     (case Attr s ''href'' of Some href \<Rightarrow> [resolveURL L base href] | None \<Rightarrow> [])"

definition anchorLink :: "'u stdlib \<Rightarrow> 'u \<Rightarrow> selection \<Rightarrow> string list" where
  "anchorLink L base s = (if Is s (Tag ''a'') then hrefLink L base s else [])"

definition firstSuccess :: "string list \<Rightarrow> string" where
  "firstSuccess ls = (case filter (\<lambda>link. link \<noteq> []) ls of [] \<Rightarrow> [] | link # rest \<Rightarrow> link)"

text \<open>
  The steps after the element itself, in their priority order: the anchors among the
  ancestors, nearest first; the first anchor among the descendants; the first anchor
  below each ancestor, nearest ancestor first.
\<close>

definition ancestorAnchors :: "'u stdlib \<Rightarrow> 'u \<Rightarrow> selection \<Rightarrow> string list" where
  "ancestorAnchors L base s = concat (map (anchorLink L base) (Parents s))"

definition descendantAnchor :: "'u stdlib \<Rightarrow> 'u \<Rightarrow> selection \<Rightarrow> string list" where
  "descendantAnchor L base s = concat (map (hrefLink L base) (First (Find s (Tag ''a''))))"

definition containerAnchors :: "'u stdlib \<Rightarrow> 'u \<Rightarrow> selection \<Rightarrow> string list" where
  "containerAnchors L base s = concat (map (descendantAnchor L base) (Parents s))"

text \<open>
  The choice of the fourth step as the specification words it: among the resolutions of
  the first anchors below the ancestors, one that contains \<open>/products/\<close> is
  preferred; otherwise the first non-empty one, that of the nearest ancestor, is taken.
\<close>

definition preferProduct :: "string list \<Rightarrow> string" where
  "preferProduct ls =
     (case filter productClass ls of
        link # rest \<Rightarrow> link
      | [] \<Rightarrow> firstSuccess ls)"

text \<open>
  The chain as the specification words it: the element itself, the ancestor anchors and
  the first descendant anchor in this order, an empty resolution skipped at every step
  and the first success returned; if none of them succeeds, the choice of the fourth
  step.
\<close>

definition closestLinkChain :: "'u stdlib \<Rightarrow> selection \<Rightarrow> 'u \<Rightarrow> string" where
  "closestLinkChain L s base =
     (let found = firstSuccess (anchorLink L base s @ ancestorAnchors L base s @
                                descendantAnchor L base s)
      in if found \<noteq> [] then found else preferProduct (containerAnchors L base s))"

subsection \<open>Structural selectors as the specification words them\<close>

text \<open>
  Heading levels 1 to 3, and any element whose class or id attribute contains
  "product" or "item".
\<close>

definition structuralElement :: "node \<Rightarrow> bool" where
  "structuralElement n =
     (matches (Tag ''h1'') n \<or> matches (Tag ''h2'') n \<or> matches (Tag ''h3'') n \<or>
      matches (AttrSubstring ''class'' ''product'') n \<or>
      matches (AttrSubstring ''class'' ''item'') n \<or>
      matches (AttrSubstring ''id'' ''product'') n \<or>
      matches (AttrSubstring ''id'' ''item'') n)"

section \<open>Example documents\<close>

text \<open>
  A listing page: a container with the id \<open>item-1\<close>, a first link, and a paragraph
  with the text "Foo" next to a second link.
\<close>

definition listingItem :: node where
  "listingItem =
     ElementNode ''div'' [(''id'', ''item-1'')]
       [ElementNode ''a'' [(''href'', ''/a'')] [TextNode ''first''],
        ElementNode ''p'' []
          [ElementNode ''span'' [] [TextNode ''Foo''],
           ElementNode ''a'' [(''href'', ''/b'')] [TextNode ''second'']]]"

definition listingBody :: node where
  "listingBody = ElementNode ''body'' [] [listingItem]"

definition listingHtml :: node where
  "listingHtml = ElementNode ''html'' [] [ElementNode ''head'' [] [], listingBody]"

definition listingPage :: document where
  "listingPage = [listingHtml]"

text \<open>
  A shop page: a heading, a link to another page, and two anchors to the same product
  page, all with the word "widget" in their text.
\<close>

definition shopPage :: document where
  "shopPage =
     [ElementNode ''html'' []
        [ElementNode ''head'' [] [ElementNode ''title'' [] [TextNode ''Shop'']],
         ElementNode ''body'' []
           [ElementNode ''h2'' [] [TextNode ''Widget sale''],
            ElementNode ''a'' [(''href'', ''/about'')] [TextNode ''About widget makers''],
            ElementNode ''a'' [(''href'', ''/products/7'')] [TextNode ''Blue Widget in stock''],
            CommentNode ''more'',
            ElementNode ''a'' [(''href'', ''/products/7'')] [TextNode ''Widget again'']]]]"

text \<open>
  A page with an anchor whose href is empty, after an anchor with a good href, and the
  selection of that second anchor.
\<close>

definition emptyHrefAnchor :: node where
  "emptyHrefAnchor = ElementNode ''a'' [(''href'', [])] [TextNode ''Foo'']"

definition emptyHrefDiv :: node where
  "emptyHrefDiv =
     ElementNode ''div'' []
       [ElementNode ''a'' [(''href'', ''/x'')] [TextNode ''other''], emptyHrefAnchor]"

definition emptyHrefBody :: node where
  "emptyHrefBody = ElementNode ''body'' [] [emptyHrefDiv]"

definition emptyHrefHtml :: node where
  "emptyHrefHtml = ElementNode ''html'' [] [ElementNode ''head'' [] [], emptyHrefBody]"

definition emptyHrefPage :: document where
  "emptyHrefPage = [emptyHrefHtml]"

definition emptyHrefSelection :: selection where
  "emptyHrefSelection = ([emptyHrefDiv, emptyHrefBody, emptyHrefHtml], emptyHrefAnchor)"

text \<open>
  A page with a product link at the start of a section and, further in, a container
  with the text "Foo" before a link of its own; and the selection of the paragraph with
  that text.
\<close>

definition nestedParagraph :: node where
  "nestedParagraph = ElementNode ''p'' [] [TextNode ''Foo'']"

definition nestedDiv :: node where
  "nestedDiv =
     ElementNode ''div'' []
       [nestedParagraph, ElementNode ''a'' [(''href'', ''/x'')] [TextNode ''other'']]"

definition nestedSection :: node where
  "nestedSection =
     ElementNode ''section'' []
       [ElementNode ''a'' [(''href'', ''/products/9'')] [TextNode ''Nine''], nestedDiv]"

definition nestedBody :: node where
  "nestedBody = ElementNode ''body'' [] [nestedSection]"

definition nestedHtml :: node where
  "nestedHtml = ElementNode ''html'' [] [ElementNode ''head'' [] [], nestedBody]"

definition nestedPage :: document where
  "nestedPage = [nestedHtml]"

definition nestedSelection :: selection where
  "nestedSelection = ([nestedDiv, nestedSection, nestedBody, nestedHtml], nestedParagraph)"

text \<open>A network that answers every request with status 200 and the given document.\<close>

definition serving :: "document \<Rightarrow> document network" where
  "serving doc = \<lparr>http_Get = (\<lambda>url. Inr (200, doc)), NewDocumentFromReader = Inr\<rparr>"

definition shopConfig :: Config where
  "shopConfig =
     \<lparr>WebsiteURL = ''https://x.test'', SearchText = ''Widget'',
      DiscordWebhook = ''https://discord.test/hook'', CheckInterval = 300\<rparr>"

definition shopConfig_email :: Config_email where
  "shopConfig_email =
     \<lparr>WebsiteURL_email = ''https://x.test'', SearchText_email = ''Widget'',
      SMTPHost = ''smtp.x.test'', SMTPPort = 587, SMTPUsername = [], SMTPPassword = [],
      EmailFrom = ''from@x.test'', EmailTo = ''to@x.test'', CheckInterval_email = 300\<rparr>"

text \<open>A page whose text has the word "Widget" and which has no anchor at all.\<close>

definition plainPage :: document where
  "plainPage =
     [ElementNode ''html'' []
        [ElementNode ''head'' [] [],
         ElementNode ''body'' [] [ElementNode ''p'' [] [TextNode ''Widget here'']]]]"

text \<open>
  A product URL followed by a tab character, which \<open>url.Parse\<close> rejects as an invalid
  control character, and a configuration with this URL.
\<close>

definition tabbedURL :: string where
  "tabbedURL = ''https://x.test/products/42'' @ [CHR 0x09]"

definition tabbedConfig :: Config where
  "tabbedConfig =
     \<lparr>WebsiteURL = tabbedURL, SearchText = ''Widget'',
      DiscordWebhook = ''https://discord.test/hook'', CheckInterval = 300\<rparr>"

text \<open>The selection of the container of the listing page.\<close>

definition listingSelection :: selection where
  "listingSelection = ([listingBody, listingHtml], listingItem)"

section \<open>Properties\<close>

subsection \<open>resolveURL\<close>

lemma resolveURL_none:
  "resolveURL L base [] = [] \<and> (url_Parse L href = None \<longrightarrow> resolveURL L base href = [])"
  by (simp add: resolveURL_def)

lemma resolveURL_parsed:
  "href \<noteq> [] \<Longrightarrow> url_Parse L href = Some parsed \<Longrightarrow>
   resolveURL L base href = url_String L (url_ResolveReference L base parsed)"
  by (simp add: resolveURL_def)

subsection \<open>The three scans as one fold over the discoveries\<close>

lemma anchorScan_fold:
  "foldl (anchorScan L base p) acc ss = foldl addLink acc (concat (map (anchorDiscovery L base p) ss))"
  by (induction ss arbitrary: acc)
     (simp_all add: anchorScan_def anchorDiscovery_def Let_def split: option.splits)

lemma selectorScan_fold:
  "foldl (selectorScan L base p) acc ss = foldl addLink acc (concat (map (selectorDiscovery L base p) ss))"
  by (induction ss arbitrary: acc) (simp_all add: selectorScan_def selectorDiscovery_def Let_def)

lemma generalScan_fold:
  "foldl (generalScan L base p) acc ss = foldl addLink acc (concat (map (generalDiscovery L base p) ss))"
  by (induction ss arbitrary: acc) (simp_all add: generalScan_def generalDiscovery_def Let_def)

lemma foldl_nested:
  "foldl (\<lambda>acc x. foldl f acc (g x)) acc xs = foldl f acc (concat (map g xs))"
  by (induction xs arbitrary: acc) simp_all

lemma scanDocument_structural:
  "scanDocument L doc base p =
     foldl (generalScan L base p)
       (foldl (selectorScan L base p)
          (foldl (anchorScan L base p) noLinks (docFind doc (Tag ''a'')))
          (structuralScanned doc))
       (docFind doc Universal)"
  by (simp add: scanDocument_def structuralScanned_def Let_def foldl_nested)

lemma scanDocument_discoveries:
  "scanDocument L doc base p = foldl addLink noLinks (discoveries L doc base p)"
  by (simp add: scanDocument_structural discoveries_def anchorScan_fold selectorScan_fold
        generalScan_fold)

subsection \<open>The accumulator holds the first occurrences\<close>



lemma unseen_after_addLink:
  "d \<noteq> [] \<Longrightarrow> \<not> linkMap acc d \<Longrightarrow>
   filter (\<lambda>l. l \<noteq> [] \<and> \<not> linkMap (addLink acc d) l) ds =
   filter (\<lambda>y. y \<noteq> d) (filter (\<lambda>l. l \<noteq> [] \<and> \<not> linkMap acc l) ds)"
  by (induction ds) (auto simp: addLink_def Let_def)

lemma productLinks_fold:
  "productLinks (foldl addLink acc ds) =
   productLinks acc @
   filter productClass (firstOccurrences (filter (\<lambda>l. l \<noteq> [] \<and> \<not> linkMap acc l) ds))"
proof (induction ds arbitrary: acc)
  case Nil
  show ?case by simp
next
  case (Cons d ds)
  show ?case
  proof (cases "d \<noteq> [] \<and> \<not> linkMap acc d")
    case True
    then have "productLinks (addLink acc d) = productLinks acc @ filter productClass [d]"
      by (simp add: addLink_def Let_def productClass_def)
    with True show ?thesis
      by (simp add: Cons.IH unseen_after_addLink)
  next
    case False
    then have "addLink acc d = acc" by (auto simp: addLink_def)
    with False show ?thesis by (auto simp: Cons.IH)
  qed
qed

lemma otherLinks_fold:
  "otherLinks (foldl addLink acc ds) =
   otherLinks acc @
   filter (\<lambda>l. \<not> productClass l)
     (firstOccurrences (filter (\<lambda>l. l \<noteq> [] \<and> \<not> linkMap acc l) ds))"
proof (induction ds arbitrary: acc)
  case Nil
  show ?case by simp
next
  case (Cons d ds)
  show ?case
  proof (cases "d \<noteq> [] \<and> \<not> linkMap acc d")
    case True
    then have "otherLinks (addLink acc d) = otherLinks acc @ filter (\<lambda>l. \<not> productClass l) [d]"
      by (simp add: addLink_def Let_def productClass_def)
    with True show ?thesis
      by (simp add: Cons.IH unseen_after_addLink)
  next
    case False
    then have "addLink acc d = acc" by (auto simp: addLink_def)
    with False show ?thesis by (auto simp: Cons.IH)
  qed
qed

lemma productLinks_scanDocument:
  "productLinks (scanDocument L doc base p) = filter productClass (candidates L doc base p)"
  by (simp add: scanDocument_discoveries productLinks_fold candidates_def noLinks_def)

lemma otherLinks_scanDocument:
  "otherLinks (scanDocument L doc base p) = filter (\<lambda>l. \<not> productClass l) (candidates L doc base p)"
  by (simp add: scanDocument_discoveries otherLinks_fold candidates_def noLinks_def)


lemma findLinksForText_cases:
  "findLinksForText L doc baseURL p =
     (case url_Parse L baseURL of
        None \<Rightarrow> []
      | Some base \<Rightarrow>
          if selfPage L doc baseURL p then [baseURL]
          else if filter productClass (candidates L doc base p) \<noteq> []
          then filter productClass (candidates L doc base p)
          else filter (\<lambda>l. \<not> productClass l) (candidates L doc base p))"
  by (auto simp: findLinksForText_def selfPage_def Let_def productLinks_scanDocument
        otherLinks_scanDocument split: option.splits)


lemma homogeneous_order:
  assumes "(\<forall>l \<in> set r. P l) \<or> (\<forall>l \<in> set r. \<not> P l)"
  shows "\<forall>i j. i < length r \<and> j < length r \<and> P (r ! i) \<and> \<not> P (r ! j) \<longrightarrow> i < j"
  using assms by (meson nth_mem)

lemma findLinksForText_homogeneous:
  "(\<forall>l \<in> set (findLinksForText L doc baseURL phrase). productClass l) \<or>
   (\<forall>l \<in> set (findLinksForText L doc baseURL phrase). \<not> productClass l)"
proof (cases "url_Parse L baseURL")
  case None
  then show ?thesis by (simp add: findLinksForText_cases)
next
  case (Some base)
  show ?thesis
  proof (cases "selfPage L doc baseURL phrase")
    case True
    with Some show ?thesis
      by (simp add: findLinksForText_cases selfPage_def productClass_def)
  next
    case False
    with Some show ?thesis
      by (simp add: findLinksForText_cases)
  qed
qed

lemma candidatesOf_parsed:
  "url_Parse L baseURL = Some base \<Longrightarrow> candidatesOf L doc baseURL phrase = candidates L doc base phrase"
  by (simp add: candidatesOf_def)

subsection \<open>The loops of findClosestLink\<close>

lemma firstSuccess_Nil: "firstSuccess [] = []"
  by (simp add: firstSuccess_def)

lemma firstSuccess_Cons: "firstSuccess (l # ls) = (if l \<noteq> [] then l else firstSuccess ls)"
  by (simp add: firstSuccess_def)

lemma firstSuccess_append:
  "firstSuccess (xs @ ys) = (if firstSuccess xs \<noteq> [] then firstSuccess xs else firstSuccess ys)"
  by (induction xs) (simp_all add: firstSuccess_Nil firstSuccess_Cons)

lemma parentLink_fold:
  "foldl (parentLink L base) f ps =
     (if f \<noteq> [] then f else firstSuccess (concat (map (anchorLink L base) ps)))"
proof (induction ps arbitrary: f)
  case Nil
  show ?case by (simp add: firstSuccess_Nil)
next
  case (Cons p ps)
  have step: "parentLink L base f p = (if f \<noteq> [] then f else firstSuccess (anchorLink L base p))"
    by (simp add: parentLink_def anchorLink_def hrefLink_def firstSuccess_Nil firstSuccess_Cons
          split: option.splits)
  show ?case
    by (simp add: Cons.IH step firstSuccess_append)
qed

lemma childLink_first:
  "foldl (childLink L base) [] (First ss) = firstSuccess (concat (map (hrefLink L base) (First ss)))"
  by (cases ss)
     (simp_all add: First_def childLink_def hrefLink_def firstSuccess_Nil firstSuccess_Cons
        split: option.splits)

lemma containerLink_first:
  "foldl (containerLink L base) [] (First ss) =
     firstSuccess (concat (map (hrefLink L base) (First ss)))"
  by (cases ss)
     (simp_all add: First_def containerLink_def hrefLink_def firstSuccess_Nil firstSuccess_Cons
        Let_def split: option.splits)

lemma parentContainer_fold:
  "foldl (parentContainer L base) f ps =
     (if f \<noteq> [] then f else firstSuccess (concat (map (descendantAnchor L base) ps)))"
proof (induction ps arbitrary: f)
  case Nil
  show ?case by (simp add: firstSuccess_Nil)
next
  case (Cons p ps)
  have step: "parentContainer L base f p =
                (if f \<noteq> [] then f else firstSuccess (descendantAnchor L base p))"
    by (simp add: parentContainer_def containerLink_first descendantAnchor_def)
  show ?case
    by (simp add: Cons.IH step firstSuccess_append)
qed

lemma anchorLink_cases:
  "anchorLink L base s =
     (case (if Is s (Tag ''a'') then Attr s ''href'' else None) of
        Some href \<Rightarrow> [resolveURL L base href] | None \<Rightarrow> [])"
  by (simp add: anchorLink_def hrefLink_def split: option.splits)

lemma findClosestLink_steps:
  "findClosestLink L s base =
     (case anchorLink L base s of
        link # rest \<Rightarrow> link
      | [] \<Rightarrow> firstSuccess (ancestorAnchors L base s @ descendantAnchor L base s @
                            containerAnchors L base s))"
  by (simp add: findClosestLink_def anchorLink_cases parentLink_fold childLink_first
        parentContainer_fold ancestorAnchors_def descendantAnchor_def containerAnchors_def
        firstSuccess_append Let_def split: option.splits)

lemma findClosestLink_chain:
  assumes "anchorLink L base s = []"
    and "firstSuccess (ancestorAnchors L base s @ descendantAnchor L base s) \<noteq> [] \<or>
         filter productClass (containerAnchors L base s) = []"
  shows "findClosestLink L s base = closestLinkChain L s base"
  using assms
  by (auto simp: findClosestLink_steps closestLinkChain_def preferProduct_def
        firstSuccess_append firstSuccess_Nil Let_def)

subsection \<open>Selections of a selector\<close>

lemma matchAll_filter:
  "matchAll sel ps n = filter (\<lambda>s. matches sel (snd s)) (matchAll Universal ps n)"
proof (induction sel ps n rule: matchAll.induct)
  case (1 sel ps d as cs)
  have "concat (map (matchAll sel (ElementNode d as cs # ps)) cs) =
        concat (map (\<lambda>c. filter (\<lambda>s. matches sel (snd s))
                             (matchAll Universal (ElementNode d as cs # ps) c)) cs)"
    using "1.IH" by (simp cong: map_cong)
  then show ?case by (simp add: filter_concat comp_def)
qed simp_all

lemma docFind_filter: "docFind doc sel = filter (\<lambda>s. Is s sel) (docFind doc Universal)"
proof -
  have "concat (map (matchAll sel []) doc) =
        concat (map (\<lambda>n. filter (\<lambda>s. matches sel (snd s)) (matchAll Universal [] n)) doc)"
    by (simp add: matchAll_filter [of sel] cong: map_cong)
  then show ?thesis by (simp add: docFind_def Is_def filter_concat comp_def)
qed

lemma set_docFind: "set (docFind doc sel) = {s \<in> set (docFind doc Universal). Is s sel}"
  by (subst docFind_filter) simp

subsection \<open>The functions of the email variant\<close>

lemma resolveURL_email_eq: "resolveURL_email L base href = resolveURL L base href"
  by (simp add: resolveURL_email_def resolveURL_def)

lemma parentLink_email_eq: "parentLink_email L base = parentLink L base"
  by (rule ext)+ (simp add: parentLink_email_def parentLink_def resolveURL_email_eq Let_def cong: option.case_cong if_cong)

lemma childLink_email_eq: "childLink_email L base = childLink L base"
  by (rule ext)+ (simp add: childLink_email_def childLink_def resolveURL_email_eq Let_def cong: option.case_cong if_cong)

lemma containerLink_email_eq: "containerLink_email L base = containerLink L base"
  by (rule ext)+ (simp add: containerLink_email_def containerLink_def resolveURL_email_eq Let_def cong: option.case_cong if_cong)

lemma parentContainer_email_eq: "parentContainer_email L base = parentContainer L base"
  by (rule ext)+ (simp add: parentContainer_email_def parentContainer_def containerLink_email_eq)

lemma findClosestLink_email_eq: "findClosestLink_email L s base = findClosestLink L s base"
  by (simp add: findClosestLink_email_def findClosestLink_def resolveURL_email_eq
        parentLink_email_eq childLink_email_eq parentContainer_email_eq
      cong: option.case_cong if_cong)

lemma addLink_email_eq: "addLink_email acc link = addLink acc link"
  by (simp add: addLink_email_def addLink_def)

lemma anchorScan_email_eq: "anchorScan_email L base phrase = anchorScan L base phrase"
  by (rule ext)+
     (simp add: anchorScan_email_def anchorScan_def addLink_email_eq resolveURL_email_eq
        cong: option.case_cong if_cong)

lemma selectorScan_email_eq: "selectorScan_email L base phrase = selectorScan L base phrase"
  by (rule ext)+
     (simp add: selectorScan_email_def selectorScan_def addLink_email_eq findClosestLink_email_eq)

lemma generalScan_email_eq: "generalScan_email L base phrase = generalScan L base phrase"
  by (rule ext)+
     (simp add: generalScan_email_def generalScan_def addLink_email_eq findClosestLink_email_eq)

lemma productSelectors_email_eq: "productSelectors_email = productSelectors"
  by (simp add: productSelectors_email_def productSelectors_def)

lemma scanDocument_email_eq:
  "scanDocument_email L doc base phrase = scanDocument L doc base phrase"
  by (simp add: scanDocument_email_def scanDocument_def anchorScan_email_eq
        selectorScan_email_eq generalScan_email_eq productSelectors_email_eq)

section \<open>The claims\<close>

text \<open>
  C1. In a check cycle whose whole-page match succeeds and whose extractor returns the
  empty list, the notifier is called with exactly the list of the base URL; and no cycle
  of either program has matched with an empty list of links.
\<close>

theorem fallback_to_base_url:
  "(http_Get N (WebsiteURL config) = Inr (200, body) \<and> NewDocumentFromReader N body = Inr doc \<and>
    Contains (strings_ToLower L (bodyText doc)) (strings_ToLower L (SearchText config)) \<and>
    findLinksForText L doc (WebsiteURL config) (strings_ToLower L (SearchText config)) = []
    \<longrightarrow> checkWebsite L N config = SendDiscordNotification (SearchText config) [WebsiteURL config]) \<and>
   (resultMatched (checkWebsite L N config) \<longrightarrow> resultLinks (checkWebsite L N config) \<noteq> []) \<and>
   (http_Get N (WebsiteURL_email econfig) = Inr (200, body) \<and> NewDocumentFromReader N body = Inr doc \<and>
    Contains (strings_ToLower L (bodyText doc)) (strings_ToLower L (SearchText_email econfig)) \<and>
    findLinksForText_email L doc (WebsiteURL_email econfig) (strings_ToLower L (SearchText_email econfig)) = []
    \<longrightarrow> checkWebsite_email L N econfig =
          SendEmailNotification (SearchText_email econfig) [WebsiteURL_email econfig]) \<and>
   (resultMatched (checkWebsite_email L N econfig) \<longrightarrow>
      resultLinks (checkWebsite_email L N econfig) \<noteq> [])"
proof -
  have a: "resultMatched (checkWebsite L N config) \<longrightarrow> resultLinks (checkWebsite L N config) \<noteq> []"
    by (simp add: checkWebsite_def Let_def split: sum.splits)
  have b: "resultMatched (checkWebsite_email L N econfig) \<longrightarrow>
      resultLinks (checkWebsite_email L N econfig) \<noteq> []"
    by (simp add: checkWebsite_email_def Let_def split: sum.splits)
  show ?thesis
    using a b by (simp add: checkWebsite_def checkWebsite_email_def)
qed

theorem fallback_to_base_url_witness:
  "findLinksForText sampleLib plainPage (WebsiteURL shopConfig)
      (strings_ToLower sampleLib (SearchText shopConfig)) = [] \<and>
   checkWebsite sampleLib (serving plainPage) shopConfig =
     SendDiscordNotification ''Widget'' [''https://x.test''] \<and>
   findLinksForText_email sampleLib plainPage (WebsiteURL_email shopConfig_email)
      (strings_ToLower sampleLib (SearchText_email shopConfig_email)) = [] \<and>
   checkWebsite_email sampleLib (serving plainPage) shopConfig_email =
     SendEmailNotification ''Widget'' [''https://x.test'']"
proof -
  have 1: "http_Get (serving plainPage) (WebsiteURL shopConfig) = Inr (200, plainPage)"
    by (simp add: serving_def)
  have 2: "NewDocumentFromReader (serving plainPage) plainPage = Inr plainPage"
    by (simp add: serving_def)
  have 3: "Contains (strings_ToLower sampleLib (bodyText plainPage))
             (strings_ToLower sampleLib (SearchText shopConfig))"
    by code_simp
  have 4: "findLinksForText sampleLib plainPage (WebsiteURL shopConfig)
             (strings_ToLower sampleLib (SearchText shopConfig)) = []"
    by code_simp
  have e1: "http_Get (serving plainPage) (WebsiteURL_email shopConfig_email) = Inr (200, plainPage)"
    by (simp add: serving_def)
  have e3: "Contains (strings_ToLower sampleLib (bodyText plainPage))
             (strings_ToLower sampleLib (SearchText_email shopConfig_email))"
    by code_simp
  have e4: "findLinksForText_email sampleLib plainPage (WebsiteURL_email shopConfig_email)
             (strings_ToLower sampleLib (SearchText_email shopConfig_email)) = []"
    by code_simp
  have n: "SearchText shopConfig = ''Widget''" "WebsiteURL shopConfig = ''https://x.test''"
     "SearchText_email shopConfig_email = ''Widget''" "WebsiteURL_email shopConfig_email = ''https://x.test''"
    by (simp_all add: shopConfig_def shopConfig_email_def)
  from fallback_to_base_url [of "serving plainPage" shopConfig plainPage plainPage sampleLib shopConfig_email]
    1 2 3 4 e1 e3 e4
  show ?thesis unfolding n by blast
qed

text \<open>
  C2. In a check cycle in which the lower-cased search text does not occur in the
  lower-cased text of the body, checkWebsite returns at "No match found.": the result
  has not matched, its list of links is empty, and the notifier is not invoked.
\<close>

theorem no_match_no_notification:
  assumes "http_Get N (WebsiteURL config) = Inr (200, body)"
    and "NewDocumentFromReader N body = Inr doc"
    and "\<not> Contains (strings_ToLower L (bodyText doc)) (strings_ToLower L (SearchText config))"
  shows "checkWebsite L N config = NoMatch \<and>
         \<not> resultMatched (checkWebsite L N config) \<and>
         resultLinks (checkWebsite L N config) = [] \<and>
         notifierCalls (checkWebsite L N config) = []"
  using assms by (simp add: checkWebsite_def)

theorem no_match_no_notification_witness:
  "\<not> Contains (strings_ToLower sampleLib (bodyText plainPage)) (strings_ToLower sampleLib ''Gadget'') \<and>
   checkWebsite sampleLib (serving plainPage) (shopConfig\<lparr>SearchText := ''Gadget''\<rparr>) = NoMatch \<and>
   notifierCalls (checkWebsite sampleLib (serving plainPage) (shopConfig\<lparr>SearchText := ''Gadget''\<rparr>)) = []"
proof -
  let ?c = "shopConfig\<lparr>SearchText := ''Gadget''\<rparr>"
  have 1: "http_Get (serving plainPage) (WebsiteURL ?c) = Inr (200, plainPage)"
    by (simp add: serving_def)
  have 2: "NewDocumentFromReader (serving plainPage) plainPage = Inr plainPage"
    by (simp add: serving_def)
  have 3: "\<not> Contains (strings_ToLower sampleLib (bodyText plainPage))
             (strings_ToLower sampleLib (SearchText ?c))"
    by code_simp
  from no_match_no_notification [OF 1 2 3] 3 show ?thesis by simp
qed



text \<open>
  C4 as it is stated fails where the self-page short-circuit applies: on the shop page
  at a product URL there is a product-class candidate, and on the plain page there is
  no candidate of either class, yet both results are the list of the base URL.
\<close>

theorem product_links_self_page_counterexample:
  "selfPage sampleLib shopPage ''https://x.test/products/42'' ''widget'' \<and>
   candidatesOf sampleLib shopPage ''https://x.test/products/42'' ''widget'' =
     [''https://x.test/about'', ''https://x.test/products/7''] \<and>
   filter productClass (candidatesOf sampleLib shopPage ''https://x.test/products/42'' ''widget'') =
     [''https://x.test/products/7''] \<and>
   findLinksForText sampleLib shopPage ''https://x.test/products/42'' ''widget'' =
     [''https://x.test/products/42''] \<and>
   selfPage sampleLib plainPage ''https://x.test/products/42'' ''widget'' \<and>
   candidatesOf sampleLib plainPage ''https://x.test/products/42'' ''widget'' = [] \<and>
   findLinksForText sampleLib plainPage ''https://x.test/products/42'' ''widget'' =
     [''https://x.test/products/42'']"
  by code_simp

text \<open>
  C4 (as amended). Where the self-page short-circuit does not apply, findLinksForText
  returns all product-class candidates if there is one, and all other candidates
  otherwise (there are no candidates when the base URL does not parse); and in every
  result, also that of the short-circuit, a product-class link stands before every link
  that is not product-class.
\<close>

theorem product_links_first:
  "(\<not> selfPage L doc baseURL phrase \<longrightarrow>
      findLinksForText L doc baseURL phrase =
        (if filter productClass (candidatesOf L doc baseURL phrase) \<noteq> []
         then filter productClass (candidatesOf L doc baseURL phrase)
         else filter (\<lambda>link. \<not> productClass link) (candidatesOf L doc baseURL phrase))) \<and>
   (\<forall>i j. i < length (findLinksForText L doc baseURL phrase) \<and>
          j < length (findLinksForText L doc baseURL phrase) \<and>
          productClass (findLinksForText L doc baseURL phrase ! i) \<and>
          \<not> productClass (findLinksForText L doc baseURL phrase ! j) \<longrightarrow> i < j)"
proof -
  have "findLinksForText L doc baseURL phrase =
        (if filter productClass (candidatesOf L doc baseURL phrase) \<noteq> []
         then filter productClass (candidatesOf L doc baseURL phrase)
         else filter (\<lambda>link. \<not> productClass link) (candidatesOf L doc baseURL phrase))"
    if "\<not> selfPage L doc baseURL phrase"
    using that by (simp add: findLinksForText_cases candidatesOf_def split: option.splits)
  moreover note homogeneous_order [OF findLinksForText_homogeneous, of L doc baseURL phrase]
  ultimately show ?thesis by blast
qed

theorem product_links_first_witness:
  "\<not> selfPage sampleLib shopPage ''https://x.test'' ''widget'' \<and>
   candidatesOf sampleLib shopPage ''https://x.test'' ''widget'' =
     [''https://x.test/about'', ''https://x.test/products/7''] \<and>
   findLinksForText sampleLib shopPage ''https://x.test'' ''widget'' =
     filter productClass (candidatesOf sampleLib shopPage ''https://x.test'' ''widget'') \<and>
   \<not> selfPage sampleLib shopPage ''https://x.test'' ''about'' \<and>
   candidatesOf sampleLib shopPage ''https://x.test'' ''about'' = [''https://x.test/about''] \<and>
   findLinksForText sampleLib shopPage ''https://x.test'' ''about'' =
     filter (\<lambda>link. \<not> productClass link) (candidatesOf sampleLib shopPage ''https://x.test'' ''about'') \<and>
   \<not> selfPage sampleLib shopPage tabbedURL ''gadget'' \<and>
   candidatesOf sampleLib shopPage tabbedURL ''gadget'' = [] \<and>
   findLinksForText sampleLib shopPage tabbedURL ''gadget'' = []"
proof -
  have 2: "\<not> selfPage sampleLib shopPage ''https://x.test'' ''widget''"
    by code_simp
  have 3: "candidatesOf sampleLib shopPage ''https://x.test'' ''widget'' =
     [''https://x.test/about'', ''https://x.test/products/7'']"
    by code_simp
  have 4: "filter productClass (candidatesOf sampleLib shopPage ''https://x.test'' ''widget'') \<noteq> []"
    by code_simp
  have 5: "\<not> selfPage sampleLib shopPage ''https://x.test'' ''about''"
    by code_simp
  have 6: "candidatesOf sampleLib shopPage ''https://x.test'' ''about'' = [''https://x.test/about'']"
    by code_simp
  have 7: "filter productClass (candidatesOf sampleLib shopPage ''https://x.test'' ''about'') = []"
    by code_simp
  have 8: "\<not> selfPage sampleLib shopPage tabbedURL ''gadget''"
    by code_simp
  have 9: "candidatesOf sampleLib shopPage tabbedURL ''gadget'' = []"
    by code_simp
  from product_links_first [of sampleLib shopPage "''https://x.test''" "''widget''"] 2 4
  have a: "findLinksForText sampleLib shopPage ''https://x.test'' ''widget'' =
     filter productClass (candidatesOf sampleLib shopPage ''https://x.test'' ''widget'')"
    by presburger
  from product_links_first [of sampleLib shopPage "''https://x.test''" "''about''"] 5 7
  have b: "findLinksForText sampleLib shopPage ''https://x.test'' ''about'' =
     filter (\<lambda>link. \<not> productClass link) (candidatesOf sampleLib shopPage ''https://x.test'' ''about'')"
    by presburger
  from product_links_first [of sampleLib shopPage tabbedURL "''gadget''"] 8 9
  have c: "findLinksForText sampleLib shopPage tabbedURL ''gadget'' = []"
    by simp
  from 2 3 5 6 8 9 a b c show ?thesis by blast
qed

text \<open>
  C5 as it is stated fails for a base URL that contains \<open>/products/\<close> and does not
  parse: the parse error is returned before the short-circuit is tried, and the result
  is empty.
\<close>

theorem self_page_unparsable_counterexample:
  "Contains tabbedURL ''/products/'' \<and>
   Contains (strings_ToLower sampleLib (bodyText shopPage)) ''widget'' \<and>
   url_Parse sampleLib tabbedURL = None \<and>
   findLinksForText sampleLib shopPage tabbedURL ''widget'' = [] \<and>
   findLinksForText sampleLib shopPage tabbedURL ''widget'' \<noteq> [tabbedURL]"
  by code_simp

text \<open>
  C5 (as amended). If the base URL parses, contains \<open>/products/\<close>, and the phrase
  occurs in the lower-cased text of the body, findLinksForText returns exactly the list
  of the base URL, whatever anchors the document has.
\<close>

theorem self_page_short_circuit:
  assumes "url_Parse L baseURL = Some base"
    and "Contains baseURL ''/products/''"
    and "Contains (strings_ToLower L (bodyText doc)) phrase"
  shows "findLinksForText L doc baseURL phrase = [baseURL]"
  using assms by (simp add: findLinksForText_def)

theorem self_page_short_circuit_witness:
  "url_Parse sampleLib ''https://x.test/products/42'' = Some ''https://x.test/products/42'' \<and>
   Contains ''https://x.test/products/42'' ''/products/'' \<and>
   Contains (strings_ToLower sampleLib (bodyText shopPage)) ''widget'' \<and>
   candidates sampleLib shopPage ''https://x.test/products/42'' ''widget'' =
     [''https://x.test/about'', ''https://x.test/products/7''] \<and>
   findLinksForText sampleLib shopPage ''https://x.test/products/42'' ''widget'' =
     [''https://x.test/products/42'']"
proof -
  have 1: "url_Parse sampleLib ''https://x.test/products/42'' = Some ''https://x.test/products/42''"
    by code_simp
  have 2: "Contains ''https://x.test/products/42'' ''/products/''"
    by code_simp
  have 3: "Contains (strings_ToLower sampleLib (bodyText shopPage)) ''widget''"
    by code_simp
  have 4: "candidates sampleLib shopPage ''https://x.test/products/42'' ''widget'' =
     [''https://x.test/about'', ''https://x.test/products/7'']"
    by code_simp
  from self_page_short_circuit [OF 1 2 3] 1 2 3 4 show ?thesis by blast
qed

text \<open>
  C7. findClosestLink evaluated where it departs from the chain. On the nested page no
  earlier step succeeds and the ancestors offer \<open>/x\<close> (nearest) and \<open>/products/9\<close>
  (further out): the chain prefers \<open>/products/9\<close>, findClosestLink returns \<open>/x\<close>,
  since its walk stops at the first ancestor with a link. For the anchor whose own href
  is empty the chain goes on to \<open>/x\<close>, findClosestLink returns the empty link at once.
\<close>

theorem closest_link_departs_from_chain:
  "nestedSelection \<in> set (docFind nestedPage Universal) \<and>
   anchorLink sampleLib ''https://x.test'' nestedSelection = [] \<and>
   ancestorAnchors sampleLib ''https://x.test'' nestedSelection = [] \<and>
   descendantAnchor sampleLib ''https://x.test'' nestedSelection = [] \<and>
   containerAnchors sampleLib ''https://x.test'' nestedSelection =
     [''https://x.test/x'', ''https://x.test/products/9'', ''https://x.test/products/9'',
      ''https://x.test/products/9''] \<and>
   closestLinkChain sampleLib nestedSelection ''https://x.test'' = ''https://x.test/products/9'' \<and>
   findClosestLink sampleLib nestedSelection ''https://x.test'' = ''https://x.test/x'' \<and>
   emptyHrefSelection \<in> set (docFind emptyHrefPage Universal) \<and>
   Is emptyHrefSelection (Tag ''a'') \<and>
   Attr emptyHrefSelection ''href'' = Some [] \<and>
   closestLinkChain sampleLib emptyHrefSelection ''https://x.test'' = ''https://x.test/x'' \<and>
   findClosestLink sampleLib emptyHrefSelection ''https://x.test'' = []"
  by code_simp

text \<open>
  C8 as it is stated fails for an id attribute containing "item": the container of the
  listing page has the id \<open>item-1\<close> and no class, the phrase is in its text and its
  closest link is \<open>/a\<close>, but the structural scan does not visit it and the link is not
  in the result.
\<close>

theorem id_item_not_scanned_counterexample:
  "listingSelection \<in> set (docFind listingPage Universal) \<and>
   Attr listingSelection ''id'' = Some ''item-1'' \<and>
   Attr listingSelection ''class'' = None \<and>
   structuralElement (snd listingSelection) \<and>
   listingSelection \<notin> set (structuralScanned listingPage) \<and>
   selectorDiscovery sampleLib ''https://x.test'' ''foo'' listingSelection = [''https://x.test/a''] \<and>
   findLinksForText sampleLib listingPage ''https://x.test'' ''foo'' = [''https://x.test/b'']"
  by code_simp

text \<open>
  C8 (as amended). The structural scan visits exactly the elements that are an h1, h2
  or h3, or have a class attribute containing "product" or "item", or have an id
  attribute containing "product"; it is the second of the three scans of scanDocument.
\<close>

theorem structural_scan_elements:
  "(s \<in> set (structuralScanned doc) \<longleftrightarrow>
      s \<in> set (docFind doc Universal) \<and>
      (Is s (Tag ''h1'') \<or> Is s (Tag ''h2'') \<or> Is s (Tag ''h3'') \<or>
       Is s (AttrSubstring ''class'' ''product'') \<or> Is s (AttrSubstring ''class'' ''item'') \<or>
       Is s (AttrSubstring ''id'' ''product''))) \<and>
   scanDocument L doc base phrase =
     foldl (generalScan L base phrase)
       (foldl (selectorScan L base phrase)
          (foldl (anchorScan L base phrase) noLinks (docFind doc (Tag ''a'')))
          (structuralScanned doc))
       (docFind doc Universal)"
proof -
  have "s \<in> set (structuralScanned doc) \<longleftrightarrow>
          (\<exists>sel \<in> set productSelectors. s \<in> set (docFind doc sel))"
    by (simp add: structuralScanned_def)
  also have "\<dots> \<longleftrightarrow>
          s \<in> set (docFind doc Universal) \<and> (\<exists>sel \<in> set productSelectors. Is s sel)"
    by (subst set_docFind) blast
  finally have "s \<in> set (structuralScanned doc) \<longleftrightarrow>
      s \<in> set (docFind doc Universal) \<and>
      (Is s (Tag ''h1'') \<or> Is s (Tag ''h2'') \<or> Is s (Tag ''h3'') \<or>
       Is s (AttrSubstring ''class'' ''product'') \<or> Is s (AttrSubstring ''class'' ''item'') \<or>
       Is s (AttrSubstring ''id'' ''product''))"
    by (simp add: productSelectors_def)
  moreover have "scanDocument L doc base phrase =
     foldl (generalScan L base phrase)
       (foldl (selectorScan L base phrase)
          (foldl (anchorScan L base phrase) noLinks (docFind doc (Tag ''a'')))
          (structuralScanned doc))
       (docFind doc Universal)"
    by (simp add: scanDocument_structural)
  ultimately show ?thesis by blast
qed

text \<open>
  C9. The link extraction of the email variant returns the same as that of the webhook
  variant: findLinksForText, findClosestLink and resolveURL agree on all arguments.
\<close>

theorem email_variant_same_links:
  "findLinksForText_email L doc baseURL searchTextLower =
     findLinksForText L doc baseURL searchTextLower \<and>
   findClosestLink_email L s base = findClosestLink L s base \<and>
   resolveURL_email L base href = resolveURL L base href"
  by (simp add: findLinksForText_email_def findLinksForText_def scanDocument_email_eq
        findClosestLink_email_eq resolveURL_email_eq cong: option.case_cong if_cong)

text \<open>
  C10 as it is stated fails in its second half: with a base URL that does not parse,
  and a page that has the search text, the cycle ends with a fetch error and does not
  hand the base URL to the notifier.
\<close>

theorem unparsable_base_url_counterexample:
  "url_Parse sampleLib (WebsiteURL tabbedConfig) = None \<and>
   Contains (strings_ToLower sampleLib (bodyText shopPage))
     (strings_ToLower sampleLib (SearchText tabbedConfig)) \<and>
   checkWebsite sampleLib (httpClient sampleLib (serving shopPage)) tabbedConfig =
     FetchError ''parse error'' \<and>
   checkWebsite sampleLib (httpClient sampleLib (serving shopPage)) tabbedConfig \<noteq>
     SendDiscordNotification (SearchText tabbedConfig) [WebsiteURL tabbedConfig] \<and>
   notifierCalls (checkWebsite sampleLib (httpClient sampleLib (serving shopPage)) tabbedConfig) = []"
  by code_simp

text \<open>
  C10 (as amended). If the base URL does not parse, findLinksForText returns the empty
  list for every document and phrase; and a check cycle with this base URL ends at the
  fetch, where \<open>http.Get\<close> returns the parse error: it has not matched and the
  notifier is not invoked.
\<close>

theorem unparsable_base_url:
  assumes "url_Parse L (WebsiteURL config) = None"
  shows "(\<forall>d phrase. findLinksForText L d (WebsiteURL config) phrase = []) \<and>
         (\<exists>err. checkWebsite L (httpClient L N) config = FetchError err) \<and>
         \<not> resultMatched (checkWebsite L (httpClient L N) config) \<and>
         notifierCalls (checkWebsite L (httpClient L N) config) = []"
  using assms by (simp add: findLinksForText_def checkWebsite_def httpClient_def)

theorem unparsable_base_url_witness:
  "url_Parse sampleLib (WebsiteURL tabbedConfig) = None \<and>
   findLinksForText sampleLib shopPage (WebsiteURL tabbedConfig) ''widget'' = [] \<and>
   (\<exists>err. checkWebsite sampleLib (httpClient sampleLib (serving shopPage)) tabbedConfig =
      FetchError err) \<and>
   notifierCalls (checkWebsite sampleLib (httpClient sampleLib (serving shopPage)) tabbedConfig) = []"
proof -
  have 1: "url_Parse sampleLib (WebsiteURL tabbedConfig) = None"
    by code_simp
  from unparsable_base_url [OF 1, of "serving shopPage"] 1 show ?thesis by blast
qed

end
